theory Spec2Isabelle
  imports Complex_Main "HOL-Library.Sublist"
begin

section \<open>Trip budget tracker: the documents, the store and the runtime\<close>

text \<open>
  The server is an Express application over two Mongoose models.  A request handler is
  modelled as a function from the store to a response and the store afterwards; what a
  handler's \<^verbatim>\<open>try\<close> block throws is a value of \<open>error\<close>, and the \<^verbatim>\<open>catch\<close> block is the
  function that turns it into a response.

  JSON numbers are rationals, a date is its time value in milliseconds (an integer, as a
  client sends it in a body and as \<^verbatim>\<open>Date.now()\<close> returns it), store ids (\<^verbatim>\<open>ObjectId\<close>) are
  opaque strings.  A request body is modelled after \<^verbatim>\<open>express.json()\<close>: every field that some
  handler or schema reads is either absent (\<open>None\<close>, JavaScript's \<^verbatim>\<open>undefined\<close>) or a value
  of the type its schema declares.
\<close>

type_synonym number = rat
type_synonym date = int
type_synonym objectId = string

text \<open>
  A schema path of type \<^verbatim>\<open>Date\<close> casts a number with \<^verbatim>\<open>new Date(n)\<close>, which is an invalid date
  when \<open>n\<close> is outside the range of a JavaScript time value, 8.64e15 milliseconds either
  side of the epoch; the failed cast is a validation error of \<^verbatim>\<open>save()\<close>.
\<close>

definition valid_Date :: "date \<Rightarrow> bool" where
  "valid_Date n = (- 8640000000000000 \<le> n \<and> n \<le> 8640000000000000)"

text \<open>\<^verbatim>\<open>models/User.js\<close>: UserSchema.\<close>

record User =
  uid :: objectId
  username :: string
  email :: string
  password :: string
  profilePicture :: string
  createdAt :: date

text \<open>\<^verbatim>\<open>models/Trip.js\<close>: ExpenseSchema and TripSchema.  The ids Mongoose gives to embedded
  expense documents are left out.\<close>

record Expense =
  description :: string
  amount :: number
  category :: string
  date :: date

record Trip =
  tid :: objectId
  user :: objectId
  destination :: string
  budget :: number
  startDate :: "date option"
  expenses :: "Expense list"

definition category_enum :: "string list" where
  "category_enum =
     [''Lodging'', ''Transportation'', ''Food'', ''Entertainment'', ''Insurance'', ''Other'']"

record db =
  users :: "User list"
  trips :: "Trip list"

text \<open>The fields of \<^verbatim>\<open>req.body\<close> that the routes destructure or that a schema casts.\<close>

record body =
  body_username :: "string option"
  body_email :: "string option"
  body_password :: "string option"
  body_destination :: "string option"
  body_budget :: "number option"
  body_startDate :: "date option"
  body_user :: "objectId option"
  body_expenses :: "Expense list option"
  body_description :: "string option"
  body_amount :: "number option"
  body_category :: "string option"
  body_date :: "date option"

text \<open>A file part of a multipart request, as multer sees it.\<close>

record file_part =
  fieldname :: string
  originalname :: string
  mimetype :: string
  file_size :: nat

record request =
  header_Authorization :: "string option"
  params_id :: objectId
  req_body :: body
  req_files :: "file_part list"

text \<open>The payload the server signs into a token, \<^verbatim>\<open>{ user: { id } }\<close>; \<open>user_id\<close> is
  \<^verbatim>\<open>req.user.user.id\<close>.\<close>

record payload =
  user_id :: objectId

text \<open>
  The libraries are parameters: \<^verbatim>\<open>jsonwebtoken\<close> (\<open>jwt_verify token secret now\<close> is \<open>None\<close>
  where \<^verbatim>\<open>jwt.verify\<close> throws), \<^verbatim>\<open>bcryptjs\<close>, \<^verbatim>\<open>validator\<close>, the string functions behind the
  schema options \<^verbatim>\<open>lowercase\<close> and \<^verbatim>\<open>trim\<close>, and \<^verbatim>\<open>path.extname\<close>.
\<close>

record libs =
  jwt_sign :: "payload \<Rightarrow> string \<Rightarrow> date \<Rightarrow> string"
  jwt_verify :: "string \<Rightarrow> string \<Rightarrow> date \<Rightarrow> payload option"
  bcrypt_hash :: "string \<Rightarrow> string \<Rightarrow> string"
  bcrypt_compare :: "string \<Rightarrow> string \<Rightarrow> bool"
  isEmail :: "string \<Rightarrow> bool"
  toLowerCase :: "string \<Rightarrow> string"
  trim :: "string \<Rightarrow> string"
  extname :: "string \<Rightarrow> string"

text \<open>What one request draws from the clock and the random sources: \<^verbatim>\<open>Date.now()\<close>, the
  \<^verbatim>\<open>ObjectId\<close> of a new document, the salt of \<^verbatim>\<open>bcrypt.genSalt(10)\<close> and the
  \<^verbatim>\<open>uniqueSuffix\<close> of an uploaded file's name.\<close>

record runtime =
  now :: date
  new_id :: objectId
  salt :: string
  uniqueSuffix :: string

definition JWT_SECRET :: string where
  "JWT_SECRET = ''super_secret_bionic_key_change_this_in_prod''"

text \<open>Errors by \<^verbatim>\<open>err.name\<close>: a schema validation failure at \<^verbatim>\<open>save()\<close>, a duplicate key
  reported by the store, a property read on \<^verbatim>\<open>null\<close>, bcryptjs refusing a non-string
  argument, and the two errors of the upload middleware.\<close>

datatype error =
    ValidationError
  | MongoServerError
  | TypeError
  | IllegalArguments
  | OnlyImages
  | MulterError string

record summary =
  summary_id :: objectId
  summary_username :: string
  summary_email :: string

text \<open>
  Responses: \<^verbatim>\<open>res.status(n).json({ msg })\<close>, \<^verbatim>\<open>res.status(n).send(text)\<close>, the
  200 answers of the routes, and the answer of Express's own error handler when a
  middleware passes an error to \<^verbatim>\<open>next\<close>.
\<close>

datatype response =
    Json_msg nat string
  | Send nat string
  | Json_auth string summary
  | Json_user "User option"
  | Json_picture string
  | Json_trips "Trip list"
  | Json_trip Trip
  | Error_handler error

fun status :: "response \<Rightarrow> nat" where
  "status (Json_msg n m) = n"
| "status (Send n m) = n"
| "status (Error_handler e) = 500"
| "status r = 200"

section \<open>The store\<close>

text \<open>\<^verbatim>\<open>User.findOne({ email })\<close>: the schema's \<^verbatim>\<open>lowercase\<close> setter is applied to the
  filter; an absent email matches no user.\<close>

definition User_findOne :: "libs \<Rightarrow> db \<Rightarrow> string option \<Rightarrow> User option" where
  "User_findOne L st e =
     (case e of
        None \<Rightarrow> None
      | Some a \<Rightarrow> find (\<lambda>u. email u = toLowerCase L a) (users st))"

definition User_findById :: "db \<Rightarrow> objectId \<Rightarrow> User option" where
  "User_findById st i = find (\<lambda>u. uid u = i) (users st)"

definition Trip_findById :: "db \<Rightarrow> objectId \<Rightarrow> Trip option" where
  "Trip_findById st i = find (\<lambda>t. tid t = i) (trips st)"

definition Trip_find :: "db \<Rightarrow> objectId \<Rightarrow> Trip list" where
  "Trip_find st owner = filter (\<lambda>t. user t = owner) (trips st)"

text \<open>\<^verbatim>\<open>save()\<close> of a new document inserts it; the store refuses a second document with the
  same id, and a second user with the same email (\<^verbatim>\<open>unique: true\<close>).\<close>

definition User_insert :: "User \<Rightarrow> db \<Rightarrow> error + db" where
  "User_insert u st =
     (if uid u \<in> set (map uid (users st)) \<or> email u \<in> set (map email (users st))
      then Inl MongoServerError
      else Inr (st\<lparr>users := users st @ [u]\<rparr>))"

definition Trip_insert :: "Trip \<Rightarrow> db \<Rightarrow> error + db" where
  "Trip_insert t st =
     (if tid t \<in> set (map tid (trips st))
      then Inl MongoServerError
      else Inr (st\<lparr>trips := trips st @ [t]\<rparr>))"

text \<open>\<^verbatim>\<open>save()\<close> of a document that was read from the store writes it back under its id.\<close>

definition User_update :: "User \<Rightarrow> db \<Rightarrow> db" where
  "User_update u st = st\<lparr>users := map (\<lambda>v. if uid v = uid u then u else v) (users st)\<rparr>"

definition Trip_update :: "Trip \<Rightarrow> db \<Rightarrow> db" where
  "Trip_update t st = st\<lparr>trips := map (\<lambda>v. if tid v = tid t then t else v) (trips st)\<rparr>"

section \<open>The auth middleware\<close>

text \<open>JavaScript's \<^verbatim>\<open>s.replace(pat, rep)\<close> with a string pattern: the first occurrence.\<close>

fun replace :: "string \<Rightarrow> string \<Rightarrow> string \<Rightarrow> string" where
  "replace pat rep [] = (if pat = [] then rep else [])"
| "replace pat rep (c # cs) =
     (if prefix pat (c # cs) then rep @ drop (length pat) (c # cs)
      else c # replace pat rep cs)"

datatype auth_result = Denied response | Next payload

text \<open>\<^verbatim>\<open>!token\<close> holds for a missing header and for an empty one.\<close>

definition auth :: "libs \<Rightarrow> date \<Rightarrow> request \<Rightarrow> auth_result" where
  "auth L t req =
     (case header_Authorization req of
        None \<Rightarrow> Denied (Json_msg 401 ''No token, authorization denied'')
      | Some token \<Rightarrow>
          if token = [] then Denied (Json_msg 401 ''No token, authorization denied'')
          else
            (case jwt_verify L (replace ''Bearer '' [] token) JWT_SECRET t of
               None \<Rightarrow> Denied (Json_msg 400 ''Token is not valid'')
             | Some decoded \<Rightarrow> Next decoded))"

text \<open>A protected route, \<^verbatim>\<open>app.METHOD(path, auth, handler)\<close>: the handler is what \<^verbatim>\<open>next()\<close>
  calls, with \<^verbatim>\<open>req.user\<close> set.\<close>

definition protected ::
  "libs \<Rightarrow> runtime \<Rightarrow> request \<Rightarrow> (payload \<Rightarrow> db \<Rightarrow> response \<times> db) \<Rightarrow> db \<Rightarrow> response \<times> db" where
  "protected L rt req handler st =
     (case auth L (now rt) req of
        Denied r \<Rightarrow> (r, st)
      | Next decoded \<Rightarrow> handler decoded st)"

text \<open>The \<^verbatim>\<open>catch\<close> block of the login, profile, avatar and trip routes.\<close>

definition server_error :: "db \<Rightarrow> error + response \<times> db \<Rightarrow> response \<times> db" where
  "server_error st r =
     (case r of Inl e \<Rightarrow> (Send 500 ''Server Error'', st) | Inr ok \<Rightarrow> ok)"

section \<open>Registration and login\<close>

text \<open>
  Validation of a new user at \<^verbatim>\<open>save()\<close>, after the setters \<^verbatim>\<open>trim\<close> and \<^verbatim>\<open>lowercase\<close>:
  \<^verbatim>\<open>required\<close> fails for an absent and for an empty string, and the email must pass
  \<^verbatim>\<open>validator.isEmail\<close>.  The password checked is the hash the route has stored in it.
\<close>

definition User_validate ::
  "libs \<Rightarrow> objectId \<Rightarrow> string option \<Rightarrow> string option \<Rightarrow> string \<Rightarrow> date \<Rightarrow> error + User" where
  "User_validate L i un em pw t =
     (case un of
        None \<Rightarrow> Inl ValidationError
      | Some n \<Rightarrow>
          (case em of
             None \<Rightarrow> Inl ValidationError
           | Some e \<Rightarrow>
               if trim L n = [] \<or> toLowerCase L e = [] \<or> \<not> isEmail L (toLowerCase L e) \<or> pw = []
               then Inl ValidationError
               else Inr \<lparr>uid = i, username = trim L n, email = toLowerCase L e, password = pw,
                          profilePicture = [], createdAt = t\<rparr>))"

definition auth_response :: "libs \<Rightarrow> date \<Rightarrow> User \<Rightarrow> response" where
  "auth_response L t u =
     Json_auth (jwt_sign L \<lparr>user_id = uid u\<rparr> JWT_SECRET t)
       \<lparr>summary_id = uid u, summary_username = username u, summary_email = email u\<rparr>"

text \<open>\<^verbatim>\<open>POST /api/register\<close>, the \<^verbatim>\<open>try\<close> block.  \<^verbatim>\<open>bcrypt.hash\<close> rejects a password that is
  not a string, before \<^verbatim>\<open>save()\<close> validates anything.\<close>

definition register_try :: "libs \<Rightarrow> runtime \<Rightarrow> request \<Rightarrow> db \<Rightarrow> error + response \<times> db" where
  "register_try L rt req st =
     (case User_findOne L st (body_email (req_body req)) of
        Some existing \<Rightarrow> Inr (Json_msg 400 ''User already exists'', st)
      | None \<Rightarrow>
          (case body_password (req_body req) of
             None \<Rightarrow> Inl IllegalArguments
           | Some pw \<Rightarrow>
               (case User_validate L (new_id rt) (body_username (req_body req))
                       (body_email (req_body req)) (bcrypt_hash L pw (salt rt)) (now rt) of
                  Inl e \<Rightarrow> Inl e
                | Inr u \<Rightarrow>
                    (case User_insert u st of
                       Inl e \<Rightarrow> Inl e
                     | Inr st' \<Rightarrow> Inr (auth_response L (now rt) u, st')))))"

text \<open>The \<^verbatim>\<open>catch\<close> block of the route: every \<^verbatim>\<open>ValidationError\<close> is answered as a bad
  email.\<close>

definition api_register :: "libs \<Rightarrow> runtime \<Rightarrow> request \<Rightarrow> db \<Rightarrow> response \<times> db" where
  "api_register L rt req st =
     (case register_try L rt req st of
        Inl e \<Rightarrow>
          if e = ValidationError then (Json_msg 400 ''Invalid Email Format'', st)
          else (Send 500 ''Server Error'', st)
      | Inr ok \<Rightarrow> ok)"

text \<open>\<^verbatim>\<open>POST /api/login\<close>.\<close>

definition login_try :: "libs \<Rightarrow> runtime \<Rightarrow> request \<Rightarrow> db \<Rightarrow> error + response \<times> db" where
  "login_try L rt req st =
     (case User_findOne L st (body_email (req_body req)) of
        None \<Rightarrow> Inr (Json_msg 400 ''Invalid Credentials'', st)
      | Some u \<Rightarrow>
          (case body_password (req_body req) of
             None \<Rightarrow> Inl IllegalArguments
           | Some pw \<Rightarrow>
               if \<not> bcrypt_compare L pw (password u)
               then Inr (Json_msg 400 ''Invalid Credentials'', st)
               else Inr (auth_response L (now rt) u, st)))"

definition api_login :: "libs \<Rightarrow> runtime \<Rightarrow> request \<Rightarrow> db \<Rightarrow> response \<times> db" where
  "api_login L rt req st = server_error st (login_try L rt req st)"

section \<open>Profile and avatar\<close>

text \<open>\<^verbatim>\<open>GET /api/auth/user\<close>: \<^verbatim>\<open>select('-password')\<close> drops the password, modelled by
  emptying it.\<close>

definition auth_user_handler :: "payload \<Rightarrow> db \<Rightarrow> response \<times> db" where
  "auth_user_handler decoded st =
     (Json_user (map_option (\<lambda>u. u\<lparr>password := []\<rparr>) (User_findById st (user_id decoded))), st)"

definition api_auth_user :: "libs \<Rightarrow> runtime \<Rightarrow> request \<Rightarrow> db \<Rightarrow> response \<times> db" where
  "api_auth_user L rt req st = protected L rt req auth_user_handler st"

text \<open>The multer instance \<^verbatim>\<open>upload\<close>: its file filter, its size limit and the name its disk
  storage gives the file.\<close>

definition fileFilter :: "file_part \<Rightarrow> bool" where
  "fileFilter f = prefix ''image/'' (mimetype f)"

definition fileSize :: nat where
  "fileSize = 5 * 1024 * 1024"

definition storage_filename :: "libs \<Rightarrow> runtime \<Rightarrow> file_part \<Rightarrow> string" where
  "storage_filename L rt f = ''avatar-'' @ uniqueSuffix rt @ extname L (originalname f)"

text \<open>
  \<^verbatim>\<open>upload.single('avatar')\<close>: no file part leaves \<^verbatim>\<open>req.file\<close> undefined; a file part is
  refused when its field is not \<^verbatim>\<open>avatar\<close>, when the filter refuses it, when it is longer
  than the limit, and when another file part follows it.  A refusal is passed to
  \<^verbatim>\<open>next(err)\<close>, so the route's handler is not called.
\<close>

fun upload_single :: "file_part list \<Rightarrow> error + file_part option" where
  "upload_single [] = Inr None"
| "upload_single (f # fs) =
     (if fieldname f \<noteq> ''avatar'' then Inl (MulterError ''Unexpected field'')
      else if \<not> fileFilter f then Inl OnlyImages
      else if fileSize < file_size f then Inl (MulterError ''File too large'')
      else if fs \<noteq> [] then Inl (MulterError ''Unexpected field'')
      else Inr (Some f))"

definition avatar_try ::
  "libs \<Rightarrow> runtime \<Rightarrow> payload \<Rightarrow> file_part option \<Rightarrow> db \<Rightarrow> error + response \<times> db" where
  "avatar_try L rt decoded req_file st =
     (case req_file of
        None \<Rightarrow> Inr (Json_msg 400 ''No file uploaded'', st)
      | Some f \<Rightarrow>
          (case User_findById st (user_id decoded) of
             None \<Rightarrow> Inr (Json_msg 404 ''User not found'', st)
           | Some u \<Rightarrow>
               Inr (Json_picture (''/uploads/'' @ storage_filename L rt f),
                    User_update (u\<lparr>profilePicture := ''/uploads/'' @ storage_filename L rt f\<rparr>) st)))"

text \<open>\<^verbatim>\<open>POST /api/user/avatar\<close>: \<^verbatim>\<open>auth\<close>, then \<^verbatim>\<open>upload.single('avatar')\<close>, then the handler.
  \<open>user_avatar_handler\<close> is what follows \<^verbatim>\<open>auth\<close>.\<close>

definition user_avatar_handler ::
  "libs \<Rightarrow> runtime \<Rightarrow> request \<Rightarrow> payload \<Rightarrow> db \<Rightarrow> response \<times> db" where
  "user_avatar_handler L rt req decoded st =
     (case upload_single (req_files req) of
        Inl e \<Rightarrow> (Error_handler e, st)
      | Inr req_file \<Rightarrow> server_error st (avatar_try L rt decoded req_file st))"

definition api_user_avatar :: "libs \<Rightarrow> runtime \<Rightarrow> request \<Rightarrow> db \<Rightarrow> response \<times> db" where
  "api_user_avatar L rt req st = protected L rt req (user_avatar_handler L rt req) st"

section \<open>Trips\<close>

text \<open>\<^verbatim>\<open>GET /api/trips\<close>.\<close>

definition trips_get_handler :: "payload \<Rightarrow> db \<Rightarrow> response \<times> db" where
  "trips_get_handler decoded st =
     server_error st (Inr (Json_trips (Trip_find st (user_id decoded)), st))"

definition api_trips_get :: "libs \<Rightarrow> runtime \<Rightarrow> request \<Rightarrow> db \<Rightarrow> response \<times> db" where
  "api_trips_get L rt req st = protected L rt req trips_get_handler st"

text \<open>Validation of a new trip at \<^verbatim>\<open>save()\<close>: destination and budget are \<^verbatim>\<open>required\<close>, a
  start date that is given must cast to a \<^verbatim>\<open>Date\<close>; the expenses of a new trip are the
  schema's empty array.\<close>

definition Trip_validate ::
  "objectId \<Rightarrow> objectId \<Rightarrow> string option \<Rightarrow> number option \<Rightarrow> date option \<Rightarrow> error + Trip" where
  "Trip_validate i owner dest bud sd =
     (case dest of
        None \<Rightarrow> Inl ValidationError
      | Some d \<Rightarrow>
          (case bud of
             None \<Rightarrow> Inl ValidationError
           | Some b \<Rightarrow>
               if d = [] \<or> case_option False (\<lambda>n. \<not> valid_Date n) sd
               then Inl ValidationError
               else Inr \<lparr>tid = i, user = owner, destination = d, budget = b, startDate = sd,
                          expenses = []\<rparr>))"

text \<open>\<^verbatim>\<open>POST /api/trips\<close>: only \<^verbatim>\<open>destination\<close>, \<^verbatim>\<open>budget\<close> and \<^verbatim>\<open>startDate\<close> are taken from the
  body.\<close>

definition trips_post_try :: "runtime \<Rightarrow> payload \<Rightarrow> request \<Rightarrow> db \<Rightarrow> error + response \<times> db" where
  "trips_post_try rt decoded req st =
     (case Trip_validate (new_id rt) (user_id decoded) (body_destination (req_body req))
             (body_budget (req_body req)) (body_startDate (req_body req)) of
        Inl e \<Rightarrow> Inl e
      | Inr newTrip \<Rightarrow>
          (case Trip_insert newTrip st of
             Inl e \<Rightarrow> Inl e
           | Inr st' \<Rightarrow> Inr (Json_trip newTrip, st')))"

definition trips_post_handler :: "runtime \<Rightarrow> request \<Rightarrow> payload \<Rightarrow> db \<Rightarrow> response \<times> db" where
  "trips_post_handler rt req decoded st = server_error st (trips_post_try rt decoded req st)"

definition api_trips_post :: "libs \<Rightarrow> runtime \<Rightarrow> request \<Rightarrow> db \<Rightarrow> response \<times> db" where
  "api_trips_post L rt req st = protected L rt req (trips_post_handler rt req) st"

text \<open>The body of an add-expense request cast by ExpenseSchema and validated at \<^verbatim>\<open>save()\<close>:
  the defaults of \<^verbatim>\<open>category\<close> and \<^verbatim>\<open>date\<close>, the two required fields, the enum, and the
  cast of a date that is given.\<close>

definition Expense_validate :: "date \<Rightarrow> body \<Rightarrow> error + Expense" where
  "Expense_validate t b =
     (case body_description b of
        None \<Rightarrow> Inl ValidationError
      | Some d \<Rightarrow>
          (case body_amount b of
             None \<Rightarrow> Inl ValidationError
           | Some a \<Rightarrow>
               if d = [] \<or> case_option ''Other'' (\<lambda>c. c) (body_category b) \<notin> set category_enum \<or>
                  case_option False (\<lambda>n. \<not> valid_Date n) (body_date b)
               then Inl ValidationError
               else Inr \<lparr>description = d, amount = a,
                          category = case_option ''Other'' (\<lambda>c. c) (body_category b),
                          date = case_option t (\<lambda>x. x) (body_date b)\<rparr>))"

text \<open>\<^verbatim>\<open>POST /api/trips/:id/expenses\<close>: \<^verbatim>\<open>trip.user\<close> is read from the result of the lookup
  without a test for \<^verbatim>\<open>null\<close>.\<close>

definition trips_expenses_try ::
  "runtime \<Rightarrow> payload \<Rightarrow> request \<Rightarrow> db \<Rightarrow> error + response \<times> db" where
  "trips_expenses_try rt decoded req st =
     (case Trip_findById st (params_id req) of
        None \<Rightarrow> Inl TypeError
      | Some trip \<Rightarrow>
          if user trip \<noteq> user_id decoded then Inr (Json_msg 401 ''Not authorized'', st)
          else
            (case Expense_validate (now rt) (req_body req) of
               Inl e \<Rightarrow> Inl e
             | Inr expense \<Rightarrow>
                 Inr (Json_trip (trip\<lparr>expenses := expenses trip @ [expense]\<rparr>),
                      Trip_update (trip\<lparr>expenses := expenses trip @ [expense]\<rparr>) st)))"

definition trips_expenses_handler ::
  "runtime \<Rightarrow> request \<Rightarrow> payload \<Rightarrow> db \<Rightarrow> response \<times> db" where
  "trips_expenses_handler rt req decoded st =
     server_error st (trips_expenses_try rt decoded req st)"

definition api_trips_expenses :: "libs \<Rightarrow> runtime \<Rightarrow> request \<Rightarrow> db \<Rightarrow> response \<times> db" where
  "api_trips_expenses L rt req st = protected L rt req (trips_expenses_handler rt req) st"

section \<open>The application\<close>

datatype route =
    POST_register
  | POST_login
  | GET_auth_user
  | POST_user_avatar
  | GET_trips
  | POST_trips
  | POST_trips_expenses

fun app :: "libs \<Rightarrow> route \<Rightarrow> runtime \<Rightarrow> request \<Rightarrow> db \<Rightarrow> response \<times> db" where
  "app L POST_register = api_register L"
| "app L POST_login = api_login L"
| "app L GET_auth_user = api_auth_user L"
| "app L POST_user_avatar = api_user_avatar L"
| "app L GET_trips = api_trips_get L"
| "app L POST_trips = api_trips_post L"
| "app L POST_trips_expenses = api_trips_expenses L"

text \<open>The routes registered with \<^verbatim>\<open>auth\<close>, each with what \<^verbatim>\<open>auth\<close> hands the request to.\<close>

fun route_handler ::
  "libs \<Rightarrow> route \<Rightarrow> runtime \<Rightarrow> request \<Rightarrow> (payload \<Rightarrow> db \<Rightarrow> response \<times> db) option" where
  "route_handler L POST_register rt req = None"
| "route_handler L POST_login rt req = None"
| "route_handler L GET_auth_user rt req = Some auth_user_handler"
| "route_handler L POST_user_avatar rt req = Some (user_avatar_handler L rt req)"
| "route_handler L GET_trips rt req = Some trips_get_handler"
| "route_handler L POST_trips rt req = Some (trips_post_handler rt req)"
| "route_handler L POST_trips_expenses rt req = Some (trips_expenses_handler rt req)"

text \<open>The store after a sequence of requests, served one after the other.\<close>

fun serve :: "libs \<Rightarrow> (route \<times> runtime \<times> request) list \<Rightarrow> db \<Rightarrow> db" where
  "serve L [] st = st"
| "serve L ((r, rt, req) # calls) st = serve L calls (snd (app L r rt req st))"

section \<open>Invariants of the store\<close>

definition empty_db :: db where
  "empty_db = \<lparr>users = [], trips = []\<rparr>"

text \<open>Every stored email has passed the schema's validator.\<close>

definition valid_emails :: "libs \<Rightarrow> db \<Rightarrow> bool" where
  "valid_emails L st = list_all (\<lambda>u. isEmail L (email u)) (users st)"

text \<open>Trip \<open>i\<close> is in the store, and every document stored under that id belongs to \<open>a\<close>.\<close>

definition owned_by :: "db \<Rightarrow> objectId \<Rightarrow> objectId \<Rightarrow> bool" where
  "owned_by st i a =
     (list_ex (\<lambda>t. tid t = i) (trips st) \<and> list_all (\<lambda>t. tid t \<noteq> i \<or> user t = a) (trips st))"

section \<open>A small instance\<close>

text \<open>
  Toy libraries and a store with two users and one trip, on which the theorems below
  are run: a token is \<open>j.\<close> followed by the user's id, a hash is \<open>#\<close> followed by the
  password, an email is a string with an \<open>@\<close>.
\<close>

definition demo_libs :: libs where
  "demo_libs =
     \<lparr>jwt_sign = (\<lambda>p secret t. ''j.'' @ user_id p),
      jwt_verify = (\<lambda>token secret t.
         if take 2 token = ''j.'' \<and> drop 2 token \<noteq> [] then Some \<lparr>user_id = drop 2 token\<rparr>
         else None),
      bcrypt_hash = (\<lambda>pw s. CHR ''#'' # pw),
      bcrypt_compare = (\<lambda>pw h. h = CHR ''#'' # pw),
      isEmail = (\<lambda>e. CHR ''@'' \<in> set e),
      toLowerCase = (\<lambda>s. s),
      trim = (\<lambda>s. s),
      extname = (\<lambda>s. dropWhile (\<lambda>c. c \<noteq> CHR ''.'') s)\<rparr>"

definition demo_runtime :: runtime where
  "demo_runtime = \<lparr>now = 1000, new_id = ''n1'', salt = ''s'', uniqueSuffix = ''1000-7''\<rparr>"

definition alice :: User where
  "alice = \<lparr>uid = ''a'', username = ''alice'', email = ''a@x.org'', password = ''#pa'',
             profilePicture = [], createdAt = 1\<rparr>"

definition bob :: User where
  "bob = \<lparr>uid = ''b'', username = ''bob'', email = ''b@x.org'', password = ''#pb'',
           profilePicture = [], createdAt = 2\<rparr>"

definition lunch :: Expense where
  "lunch = \<lparr>description = ''lunch'', amount = 12, category = ''Food'', date = 5\<rparr>"

definition tokyo :: Trip where
  "tokyo = \<lparr>tid = ''t1'', user = ''a'', destination = ''Tokyo'', budget = 2000,
             startDate = None, expenses = [lunch]\<rparr>"

definition demo_db :: db where
  "demo_db = \<lparr>users = [alice, bob], trips = [tokyo]\<rparr>"

definition empty_body :: body where
  "empty_body =
     \<lparr>body_username = None, body_email = None, body_password = None,
      body_destination = None, body_budget = None, body_startDate = None,
      body_user = None, body_expenses = None,
      body_description = None, body_amount = None, body_category = None, body_date = None\<rparr>"

definition demo_request :: "string option \<Rightarrow> body \<Rightarrow> request" where
  "demo_request hdr b =
     \<lparr>header_Authorization = hdr, params_id = ''t1'', req_body = b, req_files = []\<rparr>"

definition taxi_body :: body where
  "taxi_body = empty_body\<lparr>body_description := Some ''taxi'', body_amount := Some 30\<rparr>"

definition osaka_body :: body where
  "osaka_body = empty_body\<lparr>body_destination := Some ''Osaka'', body_budget := Some 900\<rparr>"

definition login_body :: "string \<Rightarrow> string \<Rightarrow> body" where
  "login_body e pw = empty_body\<lparr>body_email := Some e, body_password := Some pw\<rparr>"

definition carol_body :: "string \<Rightarrow> body" where
  "carol_body e = empty_body\<lparr>body_username := Some ''carol'', body_email := Some e\<rparr>"

definition avatar_file :: "string \<Rightarrow> nat \<Rightarrow> file_part" where
  "avatar_file m n =
     \<lparr>fieldname = ''avatar'', originalname = ''me.png'', mimetype = m, file_size = n\<rparr>"

definition taxi :: Expense where
  "taxi = \<lparr>description = ''taxi'', amount = 30, category = ''Other'', date = 1000\<rparr>"

definition osaka :: Trip where
  "osaka = \<lparr>tid = ''n1'', user = ''a'', destination = ''Osaka'', budget = 900,
             startDate = None, expenses = []\<rparr>"

definition kyoto_body :: body where
  "kyoto_body = empty_body\<lparr>body_destination := Some ''Kyoto'', body_budget := Some 500\<rparr>"

definition kyoto :: Trip where
  "kyoto = \<lparr>tid = ''n2'', user = ''b'', destination = ''Kyoto'', budget = 500,
             startDate = None, expenses = []\<rparr>"

definition demo_calls :: "(route \<times> runtime \<times> request) list" where
  "demo_calls =
     [(POST_trips, demo_runtime\<lparr>new_id := ''n2''\<rparr>, demo_request (Some ''j.b'') kyoto_body),
      (POST_trips_expenses, demo_runtime,
       (demo_request (Some ''j.a'') taxi_body)\<lparr>params_id := ''n1''\<rparr>)]"

definition carol :: User where
  "carol = \<lparr>uid = ''n1'', username = ''carol'', email = ''c@x.org'', password = ''#pc'',
             profilePicture = [], createdAt = 1000\<rparr>"

named_theorems demo \<open>the definitions of the small instance\<close>

declare demo_libs_def [demo] demo_runtime_def [demo] alice_def [demo] bob_def [demo]
  lunch_def [demo] tokyo_def [demo] demo_db_def [demo] empty_body_def [demo]
  demo_request_def [demo] taxi_body_def [demo] osaka_body_def [demo] login_body_def [demo]
  carol_body_def [demo] avatar_file_def [demo] empty_db_def [demo] taxi_def [demo]
  osaka_def [demo] kyoto_body_def [demo] kyoto_def [demo] demo_calls_def [demo] carol_def [demo]

named_theorems api \<open>the definitions of the routes and of the store\<close>

declare User_findOne_def [api] User_findById_def [api] Trip_findById_def [api]
  Trip_find_def [api] User_insert_def [api] Trip_insert_def [api] User_update_def [api]
  Trip_update_def [api] auth_def [api] protected_def [api] server_error_def [api]
  User_validate_def [api] auth_response_def [api] register_try_def [api]
  api_register_def [api] login_try_def [api] api_login_def [api] api_auth_user_def [api]
  fileFilter_def [api] fileSize_def [api] storage_filename_def [api] avatar_try_def [api]
  api_user_avatar_def [api] api_trips_get_def [api] Trip_validate_def [api]
  trips_post_try_def [api] api_trips_post_def [api] Expense_validate_def [api]
  trips_expenses_try_def [api] api_trips_expenses_def [api] category_enum_def [api]
  JWT_SECRET_def [api] valid_Date_def [api] auth_user_handler_def [api] user_avatar_handler_def [api]
  trips_get_handler_def [api] trips_post_handler_def [api] trips_expenses_handler_def [api]

section \<open>Lemmas about the middleware and the store\<close>

lemma replace_absent: "CHR '' '' \<notin> set tok \<Longrightarrow> replace ''Bearer '' [] tok = tok"
  by (induction tok) (auto simp: prefix_def)

lemma protected_Next:
  "auth L (now rt) req = Next decoded \<Longrightarrow> protected L rt req handler st = handler decoded st"
  by (simp add: protected_def)

lemma findById_tid: "Trip_findById st i = Some t \<Longrightarrow> tid t = i \<and> t \<in> set (trips st)"
  by (auto simp: Trip_findById_def find_Some_iff)

lemma find_update:
  "find (\<lambda>t. tid t = i) ts = Some t \<Longrightarrow> tid t' = i \<Longrightarrow>
   find (\<lambda>t. tid t = i) (map (\<lambda>v. if tid v = tid t' then t' else v) ts) = Some t'"
  by (induction ts) (auto split: if_splits)

lemma Trip_findById_update:
  "Trip_findById st i = Some t \<Longrightarrow> tid t' = i \<Longrightarrow> Trip_findById (Trip_update t' st) i = Some t'"
  using find_update [of i "trips st" t t'] by (simp add: Trip_findById_def Trip_update_def)

lemma auth_body: "auth L t (req\<lparr>req_body := b\<rparr>) = auth L t req"
  by (simp add: auth_def)

lemma app_protected:
  "route_handler L r rt req = Some handler \<Longrightarrow> app L r rt req st = protected L rt req handler st"
  by (cases r)
    (auto simp: api_auth_user_def api_user_avatar_def api_trips_get_def api_trips_post_def
      api_trips_expenses_def)

text \<open>What each route leaves of the users and of the trips.\<close>

lemma login_store: "snd (api_login L rt req st) = st"
  by (auto simp: api_login_def login_try_def server_error_def split: option.splits)

lemma auth_user_store: "snd (api_auth_user L rt req st) = st"
  by (auto simp: api_auth_user_def auth_user_handler_def protected_def split: auth_result.splits)

lemma trips_get_store: "snd (api_trips_get L rt req st) = st"
  by (auto simp: api_trips_get_def trips_get_handler_def protected_def server_error_def split:
      auth_result.splits)

lemma trips_post_users: "users (snd (api_trips_post L rt req st)) = users st"
  by (auto simp: api_trips_post_def trips_post_handler_def protected_def server_error_def
      trips_post_try_def
      Trip_insert_def split: auth_result.splits sum.splits if_splits)

lemma trips_expenses_users: "users (snd (api_trips_expenses L rt req st)) = users st"
  by (auto simp: api_trips_expenses_def trips_expenses_handler_def protected_def
      server_error_def trips_expenses_try_def
      Trip_update_def split: auth_result.splits sum.splits option.splits if_splits)

lemma register_trips: "trips (snd (api_register L rt req st)) = trips st"
  by (auto simp: api_register_def register_try_def User_insert_def
      split: option.splits sum.splits if_splits)

lemma avatar_trips: "trips (snd (api_user_avatar L rt req st)) = trips st"
  by (auto simp: api_user_avatar_def user_avatar_handler_def protected_def avatar_try_def
      server_error_def
      User_update_def split: auth_result.splits sum.splits option.splits)

text \<open>Every request keeps the stored emails valid.\<close>

lemma valid_emails_findOne:
  "valid_emails L st \<Longrightarrow> User_findOne L st (Some e) = Some u \<Longrightarrow> isEmail L (toLowerCase L e)"
  by (auto simp: valid_emails_def User_findOne_def find_Some_iff list_all_length)

lemma register_valid_emails: "valid_emails L st \<Longrightarrow> valid_emails L (snd (api_register L rt req st))"
  by (auto simp: api_register_def register_try_def User_validate_def User_insert_def
      valid_emails_def split: option.splits sum.splits if_splits)

lemma valid_emails_update:
  "valid_emails L st \<Longrightarrow> User_findById st i = Some u \<Longrightarrow>
   valid_emails L (User_update (u\<lparr>profilePicture := p\<rparr>) st)"
  by (auto simp: valid_emails_def User_update_def User_findById_def find_Some_iff
      list_all_iff)

lemma avatar_valid_emails: "valid_emails L st \<Longrightarrow> valid_emails L (snd (api_user_avatar L rt req st))"
  by (auto simp: api_user_avatar_def user_avatar_handler_def protected_def avatar_try_def
      server_error_def
      valid_emails_update split: auth_result.splits sum.splits option.splits)

lemma app_valid_emails: "valid_emails L st \<Longrightarrow> valid_emails L (snd (app L r rt req st))"
  by (cases r)
    (simp_all add: register_valid_emails login_store auth_user_store avatar_valid_emails
        trips_get_store,
      simp_all add: valid_emails_def trips_post_users trips_expenses_users)

lemma serve_valid_emails: "valid_emails L st \<Longrightarrow> valid_emails L (serve L calls st)"
  by (induction calls arbitrary: st) (auto simp: app_valid_emails)

lemma valid_emails_empty: "valid_emails L empty_db"
  by (simp add: valid_emails_def empty_db_def)

text \<open>No request changes the owner of a stored trip, or removes the trip.\<close>

lemma owned_insert:
  "owned_by st i a \<Longrightarrow> Trip_insert t st = Inr st' \<Longrightarrow> owned_by st' i a"
  by (auto simp: owned_by_def Trip_insert_def list_ex_iff list_all_iff split: if_splits)

lemma owned_inserted: "Trip_insert t st = Inr st' \<Longrightarrow> owned_by st' (tid t) (user t)"
  by (force simp: Trip_insert_def owned_by_def list_all_iff image_iff split: if_splits)

lemma owned_trips_post: "owned_by st i a \<Longrightarrow> owned_by (snd (api_trips_post L rt req st)) i a"
  by (auto simp: api_trips_post_def trips_post_handler_def protected_def server_error_def
      trips_post_try_def
      owned_insert split: auth_result.splits sum.splits)

lemma owned_update:
  assumes o: "owned_by st i a" and f: "Trip_findById st j = Some t"
  shows "owned_by (Trip_update (t\<lparr>expenses := es\<rparr>) st) i a"
proof -
  define g where "g = (\<lambda>v. if tid v = tid t then t\<lparr>expenses := es\<rparr> else v)"
  have t: "tid t = j" "t \<in> set (trips st)"
    using findById_tid [OF f] by simp_all
  have same: "tid (g v) = tid v" for v
    by (simp add: g_def)
  have owner: "user (g v) = a" if "v \<in> set (trips st)" "tid v = i" for v
    using that o t by (auto simp: g_def owned_by_def list_all_iff)
  obtain x where x: "x \<in> set (trips st)" "tid x = i"
    using o by (auto simp: owned_by_def list_ex_iff)
  have "g x \<in> set (map g (trips st))"
    using x(1) by simp
  then have ex: "list_ex (\<lambda>t. tid t = i) (map g (trips st))"
    unfolding list_ex_iff using x(2) same [of x] by blast
  have "tid y \<noteq> i \<or> user y = a" if y: "y \<in> set (map g (trips st))" for y
  proof -
    obtain v where v: "v \<in> set (trips st)" "y = g v"
      using y by auto
    show ?thesis
      using owner [OF v(1)] same [of v] v(2) by metis
  qed
  then have "list_all (\<lambda>t. tid t \<noteq> i \<or> user t = a) (map g (trips st))"
    unfolding list_all_iff by blast
  with ex show ?thesis
    by (simp add: owned_by_def Trip_update_def g_def)
qed

lemma owned_trips_expenses:
  "owned_by st i a \<Longrightarrow> owned_by (snd (api_trips_expenses L rt req st)) i a"
  by (auto simp: api_trips_expenses_def trips_expenses_handler_def protected_def
      server_error_def trips_expenses_try_def
      owned_update split: auth_result.splits sum.splits option.splits if_splits)

lemma app_owned: "owned_by st i a \<Longrightarrow> owned_by (snd (app L r rt req st)) i a"
  by (cases r)
    (simp_all add: login_store auth_user_store trips_get_store owned_trips_post
      owned_trips_expenses,
      simp_all add: owned_by_def register_trips avatar_trips)

lemma serve_owned: "owned_by st i a \<Longrightarrow> owned_by (serve L calls st) i a"
  by (induction calls arbitrary: st) (auto simp: app_owned)

lemma trips_post_created:
  assumes "auth L (now rt) req = Next decoded"
    and "api_trips_post L rt req st = (Json_trip t, st')"
  shows "user t = user_id decoded \<and> owned_by st' (tid t) (user_id decoded)"
proof -
  have "trips_post_try rt decoded req st = Inr (Json_trip t, st')"
    using assms
    by (auto simp: api_trips_post_def trips_post_handler_def protected_Next server_error_def
        split: sum.splits)
  then obtain newTrip where n: "Trip_validate (new_id rt) (user_id decoded)
        (body_destination (req_body req)) (body_budget (req_body req))
        (body_startDate (req_body req)) = Inr newTrip"
      and i: "Trip_insert newTrip st = Inr st'" and eq: "t = newTrip"
    by (auto simp: trips_post_try_def split: sum.splits)
  have "user newTrip = user_id decoded"
    using n by (auto simp: Trip_validate_def split: option.splits if_splits)
  then show ?thesis
    using owned_inserted [OF i] eq by simp
qed

text \<open>When an added expense is accepted, and which files the upload middleware lets
  through.\<close>

lemma trips_expenses_success:
  "trips_expenses_try rt decoded req st = Inr (Json_trip t1, st1) \<longleftrightarrow>
   (\<exists>trip expense. Trip_findById st (params_id req) = Some trip \<and>
      user trip = user_id decoded \<and>
      Expense_validate (now rt) (req_body req) = Inr expense \<and>
      t1 = trip\<lparr>expenses := expenses trip @ [expense]\<rparr> \<and>
      st1 = Trip_update t1 st)"
  by (auto simp: trips_expenses_try_def split: option.splits sum.splits)

lemma api_trips_expenses_success:
  assumes "auth L (now rt) req = Next decoded"
  shows "api_trips_expenses L rt req st = (Json_trip t1, st1) \<longleftrightarrow>
         trips_expenses_try rt decoded req st = Inr (Json_trip t1, st1)"
  using assms
  by (auto simp: api_trips_expenses_def trips_expenses_handler_def protected_Next
      server_error_def split: sum.splits)

lemma upload_single_accepts:
  "upload_single fs = Inr (Some f) \<Longrightarrow>
   fs = [f] \<and> prefix ''image/'' (mimetype f) \<and> file_size f \<le> fileSize"
  by (cases fs) (auto simp: fileFilter_def split: if_splits)

lemma upload_single_none: "upload_single fs = Inr None \<Longrightarrow> fs = []"
  by (cases fs) (auto split: if_splits)

section \<open>Adding an expense to someone else's trip\<close>

text \<open>
  C1.  An authenticated add-expense request for a trip that exists and whose stored
  owner id differs from the caller's id is answered 401, and the store, with the trip and
  its expenses, is as before.
\<close>

theorem add_expense_not_owner:
  assumes "auth L (now rt) req = Next decoded"
    and "Trip_findById st (params_id req) = Some trip"
    and "user trip \<noteq> user_id decoded"
  shows "api_trips_expenses L rt req st = (Json_msg 401 ''Not authorized'', st) \<and>
         status (fst (api_trips_expenses L rt req st)) = 401 \<and>
         Trip_findById (snd (api_trips_expenses L rt req st)) (params_id req) = Some trip"
  using assms
  by (simp add: api_trips_expenses_def trips_expenses_handler_def protected_Next
      trips_expenses_try_def server_error_def)

theorem add_expense_not_owner_witness:
  "auth demo_libs (now demo_runtime) (demo_request (Some ''Bearer j.b'') taxi_body) =
     Next \<lparr>user_id = ''b''\<rparr> \<and>
   Trip_findById demo_db ''t1'' = Some tokyo \<and> user tokyo = ''a'' \<and>
   api_trips_expenses demo_libs demo_runtime (demo_request (Some ''Bearer j.b'') taxi_body) demo_db =
     (Json_msg 401 ''Not authorized'', demo_db)"
proof -
  let ?req = "demo_request (Some ''Bearer j.b'') taxi_body"
  have a: "auth demo_libs (now demo_runtime) ?req = Next \<lparr>user_id = ''b''\<rparr>"
    by (simp add: auth_def demo)
  have f: "Trip_findById demo_db (params_id ?req) = Some tokyo"
    by (simp add: Trip_findById_def demo)
  have n: "user tokyo \<noteq> user_id \<lparr>user_id = ''b''\<rparr>"
    by (simp add: demo)
  show ?thesis
    using add_expense_not_owner [OF a f n] a f by (simp add: demo)
qed

section \<open>Login failures\<close>

text \<open>
  C2.  A login with an unknown email and a login with a known email and a password that
  does not match the stored hash get the same answer, 400 with the message
  \<^verbatim>\<open>Invalid Credentials\<close>.
\<close>

theorem login_invalid_credentials:
  assumes "User_findOne L st (body_email (req_body unknown)) = None"
    and "User_findOne L st (body_email (req_body wrong)) = Some u"
    and "body_password (req_body wrong) = Some pw"
    and "\<not> bcrypt_compare L pw (password u)"
  shows "api_login L rt unknown st = (Json_msg 400 ''Invalid Credentials'', st) \<and>
         api_login L rt' wrong st = (Json_msg 400 ''Invalid Credentials'', st) \<and>
         fst (api_login L rt unknown st) = fst (api_login L rt' wrong st)"
  using assms by (simp add: api_login_def login_try_def server_error_def)

theorem login_invalid_credentials_witness:
  "User_findOne demo_libs demo_db (Some ''z@x.org'') = None \<and>
   User_findOne demo_libs demo_db (Some ''a@x.org'') = Some alice \<and>
   api_login demo_libs demo_runtime (demo_request None (login_body ''z@x.org'' ''pa'')) demo_db =
     (Json_msg 400 ''Invalid Credentials'', demo_db) \<and>
   api_login demo_libs demo_runtime (demo_request None (login_body ''a@x.org'' ''pz'')) demo_db =
     (Json_msg 400 ''Invalid Credentials'', demo_db)"
proof -
  let ?unknown = "demo_request None (login_body ''z@x.org'' ''pa'')"
  let ?wrong = "demo_request None (login_body ''a@x.org'' ''pz'')"
  have 1: "User_findOne demo_libs demo_db (body_email (req_body ?unknown)) = None"
    by (simp add: User_findOne_def demo)
  have 2: "User_findOne demo_libs demo_db (body_email (req_body ?wrong)) = Some alice"
    by (simp add: User_findOne_def demo)
  have 3: "body_password (req_body ?wrong) = Some ''pz''"
    by (simp add: demo)
  have 4: "\<not> bcrypt_compare demo_libs ''pz'' (password alice)"
    by (simp add: demo)
  show ?thesis
    using login_invalid_credentials [OF 1 2 3 4, of demo_runtime demo_runtime] 1 2
    by (simp add: demo)
qed

section \<open>The gate of a protected route\<close>

text \<open>
  C3.  On every route registered with \<^verbatim>\<open>auth\<close>: without an Authorization header (and with
  an empty one) the answer is 401 \<^verbatim>\<open>No token, authorization denied\<close>; with a token whose
  verification fails it is 400 \<^verbatim>\<open>Token is not valid\<close>; in both cases the store is as before
  and nothing of the route's handler shows in the result.  Otherwise the result is the
  handler's, run on the decoded identity.  What is
  verified is the header with the first \<^verbatim>\<open>Bearer \<close> removed: the token itself when it is
  prefixed, and also when it is sent bare and holds no space.
\<close>

theorem auth_gate:
  assumes r: "route_handler L r rt req = Some handler"
  shows "(header_Authorization req = None \<or> header_Authorization req = Some [] \<longrightarrow>
            app L r rt req st = (Json_msg 401 ''No token, authorization denied'', st)) \<and>
         (\<forall>token. header_Authorization req = Some token \<and> token \<noteq> [] \<and>
              jwt_verify L (replace ''Bearer '' [] token) JWT_SECRET (now rt) = None \<longrightarrow>
            app L r rt req st = (Json_msg 400 ''Token is not valid'', st)) \<and>
         (\<forall>token decoded. header_Authorization req = Some token \<and> token \<noteq> [] \<and>
              jwt_verify L (replace ''Bearer '' [] token) JWT_SECRET (now rt) = Some decoded \<longrightarrow>
            app L r rt req st = handler decoded st) \<and>
         (\<forall>tok. replace ''Bearer '' [] (''Bearer '' @ tok) = tok) \<and>
         (\<forall>tok. CHR '' '' \<notin> set tok \<longrightarrow> replace ''Bearer '' [] tok = tok)"
  unfolding app_protected [OF r]
  by (auto simp: protected_def auth_def replace_absent)

theorem auth_gate_witness:
  "route_handler demo_libs GET_trips demo_runtime (demo_request None empty_body) =
     Some trips_get_handler \<and>
   app demo_libs GET_trips demo_runtime (demo_request None empty_body) demo_db =
     (Json_msg 401 ''No token, authorization denied'', demo_db) \<and>
   app demo_libs GET_trips demo_runtime (demo_request (Some ''Bearer x'') empty_body) demo_db =
     (Json_msg 400 ''Token is not valid'', demo_db) \<and>
   app demo_libs GET_trips demo_runtime (demo_request (Some ''Bearer j.a'') empty_body) demo_db =
     (Json_trips [tokyo], demo_db) \<and>
   app demo_libs GET_trips demo_runtime (demo_request (Some ''j.b'') empty_body) demo_db =
     (Json_trips [], demo_db)"
proof -
  have r: "route_handler demo_libs GET_trips demo_runtime req = Some trips_get_handler" for req
    by simp
  note gate = auth_gate [OF r, where st = demo_db]
  have 1: "header_Authorization (demo_request None empty_body) = None"
    by (simp add: demo)
  have 2: "header_Authorization (demo_request (Some ''Bearer x'') empty_body) = Some ''Bearer x'' \<and>
      ''Bearer x'' \<noteq> [] \<and>
      jwt_verify demo_libs (replace ''Bearer '' [] ''Bearer x'') JWT_SECRET (now demo_runtime) = None"
    by (simp add: demo)
  have 3: "header_Authorization (demo_request (Some ''Bearer j.a'') empty_body) = Some ''Bearer j.a'' \<and>
      ''Bearer j.a'' \<noteq> [] \<and>
      jwt_verify demo_libs (replace ''Bearer '' [] ''Bearer j.a'') JWT_SECRET (now demo_runtime) =
        Some \<lparr>user_id = ''a''\<rparr>"
    by (simp add: demo)
  have 4: "header_Authorization (demo_request (Some ''j.b'') empty_body) = Some ''j.b'' \<and>
      ''j.b'' \<noteq> [] \<and>
      jwt_verify demo_libs (replace ''Bearer '' [] ''j.b'') JWT_SECRET (now demo_runtime) =
        Some \<lparr>user_id = ''b''\<rparr>"
    by (simp add: demo)
  have "app demo_libs GET_trips demo_runtime (demo_request None empty_body) demo_db =
      (Json_msg 401 ''No token, authorization denied'', demo_db)"
    using gate [of "demo_request None empty_body"] 1 by blast
  moreover have "app demo_libs GET_trips demo_runtime (demo_request (Some ''Bearer x'') empty_body)
      demo_db = (Json_msg 400 ''Token is not valid'', demo_db)"
    using gate [of "demo_request (Some ''Bearer x'') empty_body"] 2 by blast
  moreover have "app demo_libs GET_trips demo_runtime (demo_request (Some ''Bearer j.a'') empty_body)
      demo_db = trips_get_handler \<lparr>user_id = ''a''\<rparr> demo_db"
    using gate [of "demo_request (Some ''Bearer j.a'') empty_body"] 3 by blast
  moreover have "app demo_libs GET_trips demo_runtime (demo_request (Some ''j.b'') empty_body)
      demo_db = trips_get_handler \<lparr>user_id = ''b''\<rparr> demo_db"
    using gate [of "demo_request (Some ''j.b'') empty_body"] 4 by blast
  ultimately show ?thesis
    using r by (simp add: trips_get_handler_def server_error_def Trip_find_def demo)
qed

section \<open>Adding an expense to a trip that does not exist\<close>

text \<open>
  C8.  An authenticated add-expense request whose trip id resolves to no trip reads the
  owner of the missing lookup result: the handler's body ends in a \<^verbatim>\<open>TypeError\<close>, which
  its \<^verbatim>\<open>catch\<close> answers with 500 \<^verbatim>\<open>Server Error\<close>, not with 404.
\<close>

theorem add_expense_missing_trip:
  assumes "auth L (now rt) req = Next decoded"
    and "Trip_findById st (params_id req) = None"
  shows "trips_expenses_try rt decoded req st = Inl TypeError \<and>
         api_trips_expenses L rt req st = (Send 500 ''Server Error'', st) \<and>
         status (fst (api_trips_expenses L rt req st)) \<noteq> 404"
  using assms
  by (simp add: api_trips_expenses_def trips_expenses_handler_def protected_Next
      trips_expenses_try_def server_error_def)

theorem add_expense_missing_trip_witness:
  "auth demo_libs (now demo_runtime)
     ((demo_request (Some ''Bearer j.a'') taxi_body)\<lparr>params_id := ''t9''\<rparr>) =
     Next \<lparr>user_id = ''a''\<rparr> \<and>
   Trip_findById demo_db ''t9'' = None \<and>
   api_trips_expenses demo_libs demo_runtime
     ((demo_request (Some ''Bearer j.a'') taxi_body)\<lparr>params_id := ''t9''\<rparr>) demo_db =
     (Send 500 ''Server Error'', demo_db)"
proof -
  let ?req = "(demo_request (Some ''Bearer j.a'') taxi_body)\<lparr>params_id := ''t9''\<rparr>"
  have a: "auth demo_libs (now demo_runtime) ?req = Next \<lparr>user_id = ''a''\<rparr>"
    by (simp add: auth_def demo)
  have f: "Trip_findById demo_db (params_id ?req) = None"
    by (simp add: Trip_findById_def demo)
  show ?thesis
    using add_expense_missing_trip [OF a f] a f by (simp add: demo)
qed

section \<open>Registration failures\<close>

text \<open>
  C4.  In every store the application reaches from the empty one: registering with an
  email that a stored user has is answered 400 \<^verbatim>\<open>User already exists\<close>; registering with an
  email that fails the validator, and with a password, is answered 400
  \<^verbatim>\<open>Invalid Email Format\<close>; in both cases the store is as before.  The password is needed:
  without one \<^verbatim>\<open>bcrypt.hash\<close> rejects before the email is validated, and the answer is 500,
  as the second theorem shows on a request with the email \<^verbatim>\<open>carol\<close> and no password.
\<close>

theorem register_errors:
  assumes "st = serve L calls empty_db"
  shows "(\<forall>u. User_findOne L st (body_email (req_body req)) = Some u \<longrightarrow>
            api_register L rt req st = (Json_msg 400 ''User already exists'', st)) \<and>
         (\<forall>e. body_email (req_body req) = Some e \<and> \<not> isEmail L (toLowerCase L e) \<and>
            body_password (req_body req) \<noteq> None \<longrightarrow>
            api_register L rt req st = (Json_msg 400 ''Invalid Email Format'', st))"
proof -
  have v: "valid_emails L st"
    using assms by (simp add: serve_valid_emails valid_emails_empty)
  have exists: "api_register L rt req st = (Json_msg 400 ''User already exists'', st)"
    if "User_findOne L st (body_email (req_body req)) = Some u" for u
    using that by (simp add: api_register_def register_try_def)
  have malformed: "api_register L rt req st = (Json_msg 400 ''Invalid Email Format'', st)"
    if e: "body_email (req_body req) = Some e" "\<not> isEmail L (toLowerCase L e)"
      and pw: "body_password (req_body req) = Some pw" for e pw
  proof -
    have "User_findOne L st (Some e) = None"
      using valid_emails_findOne [OF v, of e] e(2) by (cases "User_findOne L st (Some e)") auto
    then show ?thesis
      using e pw
      by (simp add: api_register_def register_try_def User_validate_def split: option.splits)
  qed
  show ?thesis
    using exists malformed by auto
qed

theorem register_errors_counterexample:
  "body_email (req_body (demo_request None (carol_body ''carol''))) = Some ''carol'' \<and>
   \<not> isEmail demo_libs (toLowerCase demo_libs ''carol'') \<and>
   body_password (req_body (demo_request None (carol_body ''carol''))) = None \<and>
   serve demo_libs [] empty_db = empty_db \<and>
   api_register demo_libs demo_runtime (demo_request None (carol_body ''carol'')) empty_db =
     (Send 500 ''Server Error'', empty_db) \<and>
   status (fst (api_register demo_libs demo_runtime (demo_request None (carol_body ''carol''))
     empty_db)) \<noteq> 400"
  by (simp add: api demo)

theorem register_errors_witness:
  "serve demo_libs
     [(POST_register, demo_runtime,
       demo_request None ((carol_body ''c@x.org'')\<lparr>body_password := Some ''pc''\<rparr>))] empty_db =
     \<lparr>users = [carol], trips = []\<rparr> \<and>
   api_register demo_libs demo_runtime
     (demo_request None ((carol_body ''c@x.org'')\<lparr>body_password := Some ''pd''\<rparr>))
     \<lparr>users = [carol], trips = []\<rparr> =
     (Json_msg 400 ''User already exists'', \<lparr>users = [carol], trips = []\<rparr>) \<and>
   \<not> isEmail demo_libs (toLowerCase demo_libs ''carol'') \<and>
   api_register demo_libs demo_runtime
     (demo_request None ((carol_body ''carol'')\<lparr>body_password := Some ''pd''\<rparr>))
     \<lparr>users = [carol], trips = []\<rparr> =
     (Json_msg 400 ''Invalid Email Format'', \<lparr>users = [carol], trips = []\<rparr>)"
proof -
  let ?calls = "[(POST_register, demo_runtime,
       demo_request None ((carol_body ''c@x.org'')\<lparr>body_password := Some ''pc''\<rparr>))]"
  let ?st = "\<lparr>users = [carol], trips = []\<rparr>"
  let ?again = "demo_request None ((carol_body ''c@x.org'')\<lparr>body_password := Some ''pd''\<rparr>)"
  let ?bad = "demo_request None ((carol_body ''carol'')\<lparr>body_password := Some ''pd''\<rparr>)"
  have st: "?st = serve demo_libs ?calls empty_db"
    by (simp add: api demo)
  have 1: "User_findOne demo_libs ?st (body_email (req_body ?again)) = Some carol"
    by (simp add: User_findOne_def demo)
  have 2: "body_email (req_body ?bad) = Some ''carol'' \<and>
      \<not> isEmail demo_libs (toLowerCase demo_libs ''carol'') \<and>
      body_password (req_body ?bad) \<noteq> None"
    by (simp add: demo)
  have 3: "\<not> isEmail demo_libs (toLowerCase demo_libs ''carol'')"
    by (simp add: demo)
  have "api_register demo_libs demo_runtime ?again ?st = (Json_msg 400 ''User already exists'', ?st)"
    using register_errors [OF st, of ?again demo_runtime] 1 by blast
  moreover have "api_register demo_libs demo_runtime ?bad ?st =
      (Json_msg 400 ''Invalid Email Format'', ?st)"
    using register_errors [OF st, of ?bad demo_runtime] 2 by blast
  ultimately show ?thesis
    using st 3 by simp
qed

section \<open>Listing trips\<close>

text \<open>
  C5.  An authenticated list-trips request returns the stored trips whose owner is the
  caller, all of them and no other, and leaves the store as it is.  When A has created a
  trip, then after any further requests the list of a caller B with another id holds
  neither that trip nor any trip with its id.
\<close>

theorem list_trips_own:
  "(\<forall>decoded. auth L (now rt) req = Next decoded \<longrightarrow>
      api_trips_get L rt req st =
        (Json_trips (filter (\<lambda>t. user t = user_id decoded) (trips st)), st) \<and>
      set (filter (\<lambda>t. user t = user_id decoded) (trips st)) =
        {t \<in> set (trips st). user t = user_id decoded}) \<and>
   (\<forall>A B rtA reqA st0 t st1 calls ts.
      auth L (now rtA) reqA = Next A \<and> auth L (now rt) req = Next B \<and>
      user_id A \<noteq> user_id B \<and>
      api_trips_post L rtA reqA st0 = (Json_trip t, st1) \<and>
      st = serve L calls st1 \<and>
      fst (api_trips_get L rt req st) = Json_trips ts \<longrightarrow>
      t \<notin> set ts \<and> (\<forall>x \<in> set ts. tid x \<noteq> tid t))"
proof -
  have part1: "api_trips_get L rt req st =
        (Json_trips (filter (\<lambda>t. user t = user_id decoded) (trips st)), st)"
    if "auth L (now rt) req = Next decoded" for decoded
    using that by (simp add: api_trips_get_def trips_get_handler_def protected_Next
        server_error_def Trip_find_def)
  have part2: "t \<notin> set ts \<and> (\<forall>x \<in> set ts. tid x \<noteq> tid t)"
    if a: "auth L (now rtA) reqA = Next A" and b: "auth L (now rt) req = Next B"
      and ne: "user_id A \<noteq> user_id B"
      and post: "api_trips_post L rtA reqA st0 = (Json_trip t, st1)"
      and st: "st = serve L calls st1"
      and get: "fst (api_trips_get L rt req st) = Json_trips ts"
    for A B rtA reqA st0 t st1 calls ts
  proof -
    have "owned_by st (tid t) (user_id A)"
      using trips_post_created [OF a post] st by (simp add: serve_owned)
    moreover have "ts = filter (\<lambda>t. user t = user_id B) (trips st)"
      using part1 [OF b] get by simp
    ultimately show ?thesis
      using ne by (auto simp: owned_by_def list_all_iff)
  qed
  have "\<forall>decoded. auth L (now rt) req = Next decoded \<longrightarrow>
      api_trips_get L rt req st =
        (Json_trips (filter (\<lambda>t. user t = user_id decoded) (trips st)), st) \<and>
      set (filter (\<lambda>t. user t = user_id decoded) (trips st)) =
        {t \<in> set (trips st). user t = user_id decoded}"
    using part1 by simp
  moreover have "\<forall>A B rtA reqA st0 t st1 calls ts.
      auth L (now rtA) reqA = Next A \<and> auth L (now rt) req = Next B \<and>
      user_id A \<noteq> user_id B \<and>
      api_trips_post L rtA reqA st0 = (Json_trip t, st1) \<and>
      st = serve L calls st1 \<and>
      fst (api_trips_get L rt req st) = Json_trips ts \<longrightarrow>
      t \<notin> set ts \<and> (\<forall>x \<in> set ts. tid x \<noteq> tid t)"
    by (intro allI impI) (elim conjE, rule part2; assumption)
  ultimately show ?thesis
    by (rule conjI)
qed

theorem list_trips_own_witness:
  "api_trips_get demo_libs demo_runtime (demo_request (Some ''j.a'') empty_body) demo_db =
     (Json_trips [tokyo], demo_db) \<and>
   api_trips_post demo_libs demo_runtime (demo_request (Some ''j.a'') osaka_body) demo_db =
     (Json_trip osaka, demo_db\<lparr>trips := [tokyo, osaka]\<rparr>) \<and>
   fst (api_trips_get demo_libs demo_runtime (demo_request (Some ''j.b'') empty_body)
     (serve demo_libs demo_calls (demo_db\<lparr>trips := [tokyo, osaka]\<rparr>))) = Json_trips [kyoto] \<and>
   osaka \<notin> set [kyoto] \<and> tid kyoto \<noteq> tid osaka"
proof -
  let ?reqA = "demo_request (Some ''j.a'') osaka_body"
  let ?reqB = "demo_request (Some ''j.b'') empty_body"
  let ?st1 = "demo_db\<lparr>trips := [tokyo, osaka]\<rparr>"
  let ?st = "serve demo_libs demo_calls ?st1"
  have a: "auth demo_libs (now demo_runtime) ?reqA = Next \<lparr>user_id = ''a''\<rparr>"
    by (simp add: auth_def demo)
  have a': "auth demo_libs (now demo_runtime) (demo_request (Some ''j.a'') empty_body) =
      Next \<lparr>user_id = ''a''\<rparr>"
    by (simp add: auth_def demo)
  have b: "auth demo_libs (now demo_runtime) ?reqB = Next \<lparr>user_id = ''b''\<rparr>"
    by (simp add: auth_def demo)
  have ne: "user_id \<lparr>user_id = ''a''\<rparr> \<noteq> user_id \<lparr>user_id = ''b''\<rparr>"
    by simp
  have post: "api_trips_post demo_libs demo_runtime ?reqA demo_db = (Json_trip osaka, ?st1)"
    by (simp add: api demo)
  have get: "fst (api_trips_get demo_libs demo_runtime ?reqB ?st) = Json_trips [kyoto]"
    by (simp add: api demo)
  have "api_trips_get demo_libs demo_runtime (demo_request (Some ''j.a'') empty_body) demo_db =
      (Json_trips (filter (\<lambda>t. user t = user_id \<lparr>user_id = ''a''\<rparr>) (trips demo_db)), demo_db)"
    using list_trips_own [of demo_libs demo_runtime "demo_request (Some ''j.a'') empty_body" demo_db]
      a' by blast
  then have 1: "api_trips_get demo_libs demo_runtime (demo_request (Some ''j.a'') empty_body)
      demo_db = (Json_trips [tokyo], demo_db)"
    by (simp add: demo)
  have "osaka \<notin> set [kyoto] \<and> (\<forall>x \<in> set [kyoto]. tid x \<noteq> tid osaka)"
    using list_trips_own [of demo_libs demo_runtime ?reqB ?st] a b ne post get by blast
  then show ?thesis
    using 1 post get by simp
qed

section \<open>Adding an expense\<close>

text \<open>
  C6.  When an authenticated add-expense request succeeds, the trip was stored and owned
  by the caller, the trip returned and stored afterwards is that trip with the new
  expense appended to its expenses, and the same request served again succeeds again and
  appends the expense a second time.  The request succeeds whenever the trip is stored,
  owned by the caller and the body passes the expense schema.
\<close>

theorem add_expense_appends:
  assumes a: "auth L (now rt) req = Next decoded"
  shows "(\<forall>t1 st1. api_trips_expenses L rt req st = (Json_trip t1, st1) \<longrightarrow>
            (\<exists>trip expense t2 st2.
               Trip_findById st (params_id req) = Some trip \<and>
               user trip = user_id decoded \<and>
               Expense_validate (now rt) (req_body req) = Inr expense \<and>
               t1 = trip\<lparr>expenses := expenses trip @ [expense]\<rparr> \<and>
               Trip_findById st1 (params_id req) = Some t1 \<and>
               api_trips_expenses L rt req st1 = (Json_trip t2, st2) \<and>
               expenses t2 = expenses trip @ [expense, expense] \<and>
               Trip_findById st2 (params_id req) = Some t2)) \<and>
         (\<forall>trip expense.
            Trip_findById st (params_id req) = Some trip \<and> user trip = user_id decoded \<and>
            Expense_validate (now rt) (req_body req) = Inr expense \<longrightarrow>
            (\<exists>st1. api_trips_expenses L rt req st =
               (Json_trip (trip\<lparr>expenses := expenses trip @ [expense]\<rparr>), st1)))"
proof (intro conjI allI impI)
  fix t1 st1
  assume ok: "api_trips_expenses L rt req st = (Json_trip t1, st1)"
  then obtain trip expense where f: "Trip_findById st (params_id req) = Some trip"
    and own: "user trip = user_id decoded"
    and v: "Expense_validate (now rt) (req_body req) = Inr expense"
    and t1: "t1 = trip\<lparr>expenses := expenses trip @ [expense]\<rparr>"
    and st1: "st1 = Trip_update t1 st"
    using api_trips_expenses_success [OF a] trips_expenses_success by blast
  have i: "tid t1 = params_id req"
    using findById_tid [OF f] t1 by simp
  have f1: "Trip_findById st1 (params_id req) = Some t1"
    using Trip_findById_update [OF f i] st1 by simp
  define t2 where "t2 = t1\<lparr>expenses := expenses t1 @ [expense]\<rparr>"
  have "trips_expenses_try rt decoded req st1 = Inr (Json_trip t2, Trip_update t2 st1)"
    using f1 own v t1 unfolding trips_expenses_success t2_def by simp
  then have again: "api_trips_expenses L rt req st1 = (Json_trip t2, Trip_update t2 st1)"
    using api_trips_expenses_success [OF a] by simp
  have "tid t2 = params_id req"
    using i by (simp add: t2_def)
  then have f2: "Trip_findById (Trip_update t2 st1) (params_id req) = Some t2"
    using Trip_findById_update [OF f1] by simp
  have "expenses t2 = expenses trip @ [expense, expense]"
    by (simp add: t2_def t1)
  with f own v t1 f1 again f2
  show "\<exists>trip expense t2 st2.
               Trip_findById st (params_id req) = Some trip \<and>
               user trip = user_id decoded \<and>
               Expense_validate (now rt) (req_body req) = Inr expense \<and>
               t1 = trip\<lparr>expenses := expenses trip @ [expense]\<rparr> \<and>
               Trip_findById st1 (params_id req) = Some t1 \<and>
               api_trips_expenses L rt req st1 = (Json_trip t2, st2) \<and>
               expenses t2 = expenses trip @ [expense, expense] \<and>
               Trip_findById st2 (params_id req) = Some t2"
    by blast
next
  fix trip expense
  assume "Trip_findById st (params_id req) = Some trip \<and> user trip = user_id decoded \<and>
            Expense_validate (now rt) (req_body req) = Inr expense"
  then have "trips_expenses_try rt decoded req st =
      Inr (Json_trip (trip\<lparr>expenses := expenses trip @ [expense]\<rparr>),
           Trip_update (trip\<lparr>expenses := expenses trip @ [expense]\<rparr>) st)"
    unfolding trips_expenses_success by simp
  then show "\<exists>st1. api_trips_expenses L rt req st =
               (Json_trip (trip\<lparr>expenses := expenses trip @ [expense]\<rparr>), st1)"
    using api_trips_expenses_success [OF a] by blast
qed

theorem add_expense_appends_witness:
  "auth demo_libs (now demo_runtime) (demo_request (Some ''j.a'') taxi_body) =
     Next \<lparr>user_id = ''a''\<rparr> \<and>
   api_trips_expenses demo_libs demo_runtime (demo_request (Some ''j.a'') taxi_body) demo_db =
     (Json_trip (tokyo\<lparr>expenses := [lunch, taxi]\<rparr>),
      demo_db\<lparr>trips := [tokyo\<lparr>expenses := [lunch, taxi]\<rparr>]\<rparr>) \<and>
   (\<exists>st2. api_trips_expenses demo_libs demo_runtime (demo_request (Some ''j.a'') taxi_body)
      (demo_db\<lparr>trips := [tokyo\<lparr>expenses := [lunch, taxi]\<rparr>]\<rparr>) =
     (Json_trip (tokyo\<lparr>expenses := [lunch, taxi, taxi]\<rparr>), st2))"
proof -
  let ?req = "demo_request (Some ''j.a'') taxi_body"
  let ?t1 = "tokyo\<lparr>expenses := [lunch, taxi]\<rparr>"
  let ?st1 = "demo_db\<lparr>trips := [?t1]\<rparr>"
  have a: "auth demo_libs (now demo_runtime) ?req = Next \<lparr>user_id = ''a''\<rparr>"
    by (simp add: auth_def demo)
  have f: "Trip_findById demo_db (params_id ?req) = Some tokyo \<and>
      user tokyo = user_id \<lparr>user_id = ''a''\<rparr> \<and>
      Expense_validate (now demo_runtime) (req_body ?req) = Inr taxi"
    by (simp add: api demo)
  have "\<exists>st1. api_trips_expenses demo_libs demo_runtime ?req demo_db =
      (Json_trip (tokyo\<lparr>expenses := expenses tokyo @ [taxi]\<rparr>), st1)"
    using add_expense_appends [OF a, of demo_db] f by blast
  then have first: "api_trips_expenses demo_libs demo_runtime ?req demo_db = (Json_trip ?t1, ?st1)"
    by (auto simp: api demo)
  have f1: "Trip_findById ?st1 (params_id ?req) = Some ?t1 \<and>
      user ?t1 = user_id \<lparr>user_id = ''a''\<rparr> \<and>
      Expense_validate (now demo_runtime) (req_body ?req) = Inr taxi"
    by (simp add: api demo)
  have "\<exists>st2. api_trips_expenses demo_libs demo_runtime ?req ?st1 =
      (Json_trip (?t1\<lparr>expenses := expenses ?t1 @ [taxi]\<rparr>), st2)"
    using add_expense_appends [OF a, of ?st1] f1 by blast
  then show ?thesis
    using a first by simp
qed

section \<open>Creating a trip\<close>

text \<open>
  C7.  For an authenticated create-trip request that gives a destination and a budget,
  the trip returned has that destination and budget, no expenses, and the caller's id
  as its owner.  A trip is returned when the destination is not empty, the new id is not
  in the store and a start date, if given, is in the range of a \<^verbatim>\<open>Date\<close>; otherwise the
  answer is 500 and the store is as before.
\<close>

theorem create_trip_returns:
  assumes a: "auth L (now rt) req = Next decoded"
    and d: "body_destination (req_body req) = Some dest"
    and b: "body_budget (req_body req) = Some bud"
  shows "(\<forall>t st'. api_trips_post L rt req st = (Json_trip t, st') \<longrightarrow>
            destination t = dest \<and> budget t = bud \<and> expenses t = [] \<and>
            user t = user_id decoded) \<and>
         (dest \<noteq> [] \<and> new_id rt \<notin> tid ` set (trips st) \<and>
          (\<forall>n. body_startDate (req_body req) = Some n \<longrightarrow> valid_Date n) \<longrightarrow>
            (\<exists>t st'. api_trips_post L rt req st = (Json_trip t, st'))) \<and>
         (dest = [] \<or> new_id rt \<in> tid ` set (trips st) \<or>
          (\<exists>n. body_startDate (req_body req) = Some n \<and> \<not> valid_Date n) \<longrightarrow>
            api_trips_post L rt req st = (Send 500 ''Server Error'', st))"
  using a d b
  by (auto simp: api_trips_post_def trips_post_handler_def protected_Next server_error_def
      trips_post_try_def Trip_validate_def Trip_insert_def
      split: sum.splits if_splits option.splits)

theorem create_trip_returns_witness:
  "auth demo_libs (now demo_runtime) (demo_request (Some ''j.a'') osaka_body) =
     Next \<lparr>user_id = ''a''\<rparr> \<and>
   fst (api_trips_post demo_libs demo_runtime (demo_request (Some ''j.a'') osaka_body) demo_db) =
     Json_trip osaka \<and>
   destination osaka = ''Osaka'' \<and> budget osaka = 900 \<and> expenses osaka = [] \<and>
   user osaka = ''a'' \<and>
   api_trips_post demo_libs demo_runtime
     (demo_request (Some ''j.a'') (osaka_body\<lparr>body_destination := Some []\<rparr>)) demo_db =
     (Send 500 ''Server Error'', demo_db) \<and>
   \<not> valid_Date 8640000000000001 \<and>
   api_trips_post demo_libs demo_runtime
     (demo_request (Some ''j.a'') (osaka_body\<lparr>body_startDate := Some 8640000000000001\<rparr>))
     demo_db = (Send 500 ''Server Error'', demo_db)"
proof -
  let ?req = "demo_request (Some ''j.a'') osaka_body"
  let ?req' = "demo_request (Some ''j.a'') (osaka_body\<lparr>body_destination := Some []\<rparr>)"
  let ?late = "demo_request (Some ''j.a'')
      (osaka_body\<lparr>body_startDate := Some 8640000000000001\<rparr>)"
  have a: "auth demo_libs (now demo_runtime) ?req = Next \<lparr>user_id = ''a''\<rparr>"
    by (simp add: auth_def demo)
  have a': "auth demo_libs (now demo_runtime) ?req' = Next \<lparr>user_id = ''a''\<rparr>"
    by (simp add: auth_def demo)
  have a'': "auth demo_libs (now demo_runtime) ?late = Next \<lparr>user_id = ''a''\<rparr>"
    by (simp add: auth_def demo)
  have late: "body_destination (req_body ?late) = Some ''Osaka''"
    "body_budget (req_body ?late) = Some 900"
    "body_startDate (req_body ?late) = Some 8640000000000001"
    by (simp_all add: demo)
  have nv: "\<not> valid_Date 8640000000000001"
    by (simp add: valid_Date_def)
  have d: "body_destination (req_body ?req) = Some ''Osaka''"
    and b: "body_budget (req_body ?req) = Some 900"
    and d': "body_destination (req_body ?req') = Some []"
    and b': "body_budget (req_body ?req') = Some 900"
    by (simp_all add: demo)
  have fresh: "''Osaka'' \<noteq> [] \<and> new_id demo_runtime \<notin> tid ` set (trips demo_db) \<and>
      (\<forall>n. body_startDate (req_body ?req) = Some n \<longrightarrow> valid_Date n)"
    by (simp add: demo)
  obtain t st' where ok: "api_trips_post demo_libs demo_runtime ?req demo_db = (Json_trip t, st')"
    using create_trip_returns [OF a d b, of demo_db] fresh by blast
  then have "destination t = ''Osaka'' \<and> budget t = 900 \<and> expenses t = [] \<and>
      user t = user_id \<lparr>user_id = ''a''\<rparr>"
    using create_trip_returns [OF a d b, of demo_db] by blast
  moreover have "t = osaka"
    using ok by (simp add: api demo)
  moreover have "api_trips_post demo_libs demo_runtime ?req' demo_db =
      (Send 500 ''Server Error'', demo_db)"
    using create_trip_returns [OF a' d' b', of demo_db] by blast
  moreover have "api_trips_post demo_libs demo_runtime ?late demo_db =
      (Send 500 ''Server Error'', demo_db)"
    using create_trip_returns [OF a'' late(1,2), of demo_db] late(3) nv by blast
  ultimately show ?thesis
    using a ok nv by simp
qed

text \<open>
  C10.  The \<^verbatim>\<open>user\<close> and \<^verbatim>\<open>expenses\<close> fields of a create-trip body have no effect on the
  answer or on the store, and every trip the request adds to the store is owned by the
  identity of the token and has no expenses.
\<close>

theorem create_trip_owner_from_token:
  assumes a: "auth L (now rt) req = Next decoded"
  shows "api_trips_post L rt
           (req\<lparr>req_body := (req_body req)\<lparr>body_user := u, body_expenses := es\<rparr>\<rparr>) st =
         api_trips_post L rt req st \<and>
         (\<forall>t \<in> set (trips (snd (api_trips_post L rt req st))).
            t \<notin> set (trips st) \<longrightarrow> user t = user_id decoded \<and> expenses t = [])"
proof
  show "api_trips_post L rt
           (req\<lparr>req_body := (req_body req)\<lparr>body_user := u, body_expenses := es\<rparr>\<rparr>) st =
         api_trips_post L rt req st"
    by (simp add: api_trips_post_def trips_post_handler_def protected_def auth_body
        trips_post_try_def split: auth_result.splits)
  show "\<forall>t \<in> set (trips (snd (api_trips_post L rt req st))).
            t \<notin> set (trips st) \<longrightarrow> user t = user_id decoded \<and> expenses t = []"
    using a
    by (auto simp: api_trips_post_def trips_post_handler_def protected_Next server_error_def
        trips_post_try_def
        Trip_validate_def Trip_insert_def split: sum.splits option.splits if_splits)
qed

theorem create_trip_owner_from_token_witness:
  "auth demo_libs (now demo_runtime) (demo_request (Some ''j.a'') osaka_body) =
     Next \<lparr>user_id = ''a''\<rparr> \<and>
   api_trips_post demo_libs demo_runtime
     (demo_request (Some ''j.a'')
        (osaka_body\<lparr>body_user := Some ''b'', body_expenses := Some [lunch]\<rparr>)) demo_db =
     (Json_trip osaka, demo_db\<lparr>trips := [tokyo, osaka]\<rparr>) \<and>
   user osaka = ''a'' \<and> expenses osaka = []"
proof -
  let ?req = "demo_request (Some ''j.a'') osaka_body"
  have a: "auth demo_libs (now demo_runtime) ?req = Next \<lparr>user_id = ''a''\<rparr>"
    by (simp add: auth_def demo)
  have post: "api_trips_post demo_libs demo_runtime ?req demo_db =
      (Json_trip osaka, demo_db\<lparr>trips := [tokyo, osaka]\<rparr>)"
    by (simp add: api demo)
  have forged: "?req\<lparr>req_body := (req_body ?req)\<lparr>body_user := Some ''b'',
      body_expenses := Some [lunch]\<rparr>\<rparr> =
      demo_request (Some ''j.a'')
        (osaka_body\<lparr>body_user := Some ''b'', body_expenses := Some [lunch]\<rparr>)"
    by (simp add: demo)
  have new: "osaka \<in> set (trips (snd (api_trips_post demo_libs demo_runtime ?req demo_db))) \<and>
      osaka \<notin> set (trips demo_db)"
    unfolding post by (simp add: demo)
  note owner = create_trip_owner_from_token [OF a, where u = "Some ''b''" and es = "Some [lunch]"
      and st = demo_db]
  have "user osaka = user_id \<lparr>user_id = ''a''\<rparr> \<and> expenses osaka = []"
    using owner new by blast
  then show ?thesis
    using owner a post forged by simp
qed

section \<open>Uploading an avatar\<close>

text \<open>
  C9.  An avatar request with a file whose MIME type does not start with \<^verbatim>\<open>image/\<close> or
  whose size is above 5 MiB leaves the store, and so every user's \<^verbatim>\<open>profilePicture\<close>, as
  it was, and is not answered 200; past the gate it is answered by the error handler.  A
  request that is answered with a picture path carried exactly one file, of an image type
  and of at most 5 MiB.
\<close>

theorem avatar_rejects:
  "(\<forall>f \<in> set (req_files req).
      \<not> prefix ''image/'' (mimetype f) \<or> 5 * 1024 * 1024 < file_size f \<longrightarrow>
      snd (api_user_avatar L rt req st) = st \<and>
      status (fst (api_user_avatar L rt req st)) \<noteq> 200 \<and>
      (\<forall>decoded. auth L (now rt) req = Next decoded \<longrightarrow>
         (\<exists>e. fst (api_user_avatar L rt req st) = Error_handler e))) \<and>
   (\<forall>p. fst (api_user_avatar L rt req st) = Json_picture p \<longrightarrow>
      (\<exists>f. req_files req = [f] \<and> prefix ''image/'' (mimetype f) \<and>
           file_size f \<le> 5 * 1024 * 1024))"
proof (intro conjI ballI allI impI)
  fix f
  assume f: "f \<in> set (req_files req)"
    and bad: "\<not> prefix ''image/'' (mimetype f) \<or> 5 * 1024 * 1024 < file_size f"
  have "\<exists>e. upload_single (req_files req) = Inl e"
  proof (cases "upload_single (req_files req)")
    case (Inl e)
    then show ?thesis by simp
  next
    case (Inr r)
    show ?thesis
    proof (cases r)
      case None
      then show ?thesis using Inr f upload_single_none by fastforce
    next
      case (Some g)
      then show ?thesis
        using Inr f bad upload_single_accepts [of "req_files req" g]
        by (auto simp: fileSize_def)
    qed
  qed
  then obtain e where e: "upload_single (req_files req) = Inl e" ..
  show "snd (api_user_avatar L rt req st) = st"
    using e by (auto simp: api_user_avatar_def user_avatar_handler_def protected_def split:
        auth_result.splits)
  show "status (fst (api_user_avatar L rt req st)) \<noteq> 200"
    using e
    by (auto simp: api_user_avatar_def user_avatar_handler_def protected_def auth_def
        split: auth_result.splits option.splits if_splits)
  show "\<exists>e. fst (api_user_avatar L rt req st) = Error_handler e"
    if "auth L (now rt) req = Next decoded" for decoded
    using e that by (simp add: api_user_avatar_def user_avatar_handler_def protected_Next)
next
  fix p
  assume p: "fst (api_user_avatar L rt req st) = Json_picture p"
  then obtain f where "upload_single (req_files req) = Inr (Some f)"
    by (auto simp: api_user_avatar_def user_avatar_handler_def protected_def auth_def
        avatar_try_def server_error_def
        split: auth_result.splits option.splits if_splits sum.splits)
  then show "\<exists>f. req_files req = [f] \<and> prefix ''image/'' (mimetype f) \<and>
           file_size f \<le> 5 * 1024 * 1024"
    using upload_single_accepts [of "req_files req" f] by (auto simp: fileSize_def)
qed

theorem avatar_rejects_witness:
  "snd (api_user_avatar demo_libs demo_runtime
     ((demo_request (Some ''j.a'') empty_body)\<lparr>req_files := [avatar_file ''text/plain'' 10]\<rparr>)
     demo_db) = demo_db \<and>
   fst (api_user_avatar demo_libs demo_runtime
     ((demo_request (Some ''j.a'') empty_body)\<lparr>req_files := [avatar_file ''text/plain'' 10]\<rparr>)
     demo_db) = Error_handler OnlyImages \<and>
   snd (api_user_avatar demo_libs demo_runtime
     ((demo_request (Some ''j.a'') empty_body)\<lparr>req_files := [avatar_file ''image/png'' 6291456]\<rparr>)
     demo_db) = demo_db \<and>
   api_user_avatar demo_libs demo_runtime
     ((demo_request (Some ''j.a'') empty_body)\<lparr>req_files := [avatar_file ''image/png'' 5242880]\<rparr>)
     demo_db =
     (Json_picture ''/uploads/avatar-1000-7.png'',
      demo_db\<lparr>users := [alice\<lparr>profilePicture := ''/uploads/avatar-1000-7.png''\<rparr>, bob]\<rparr>)"
proof -
  let ?req = "\<lambda>f. (demo_request (Some ''j.a'') empty_body)\<lparr>req_files := [f]\<rparr>"
  let ?text = "avatar_file ''text/plain'' 10"
  let ?big = "avatar_file ''image/png'' 6291456"
  let ?png = "avatar_file ''image/png'' 5242880"
  have t: "?text \<in> set (req_files (?req ?text)) \<and>
      (\<not> prefix ''image/'' (mimetype ?text) \<or> 5 * 1024 * 1024 < file_size ?text)"
    by (simp add: demo)
  have g: "?big \<in> set (req_files (?req ?big)) \<and>
      (\<not> prefix ''image/'' (mimetype ?big) \<or> 5 * 1024 * 1024 < file_size ?big)"
    by (simp add: demo)
  have 1: "snd (api_user_avatar demo_libs demo_runtime (?req ?text) demo_db) = demo_db"
    using avatar_rejects [of "?req ?text" demo_libs demo_runtime demo_db] t by blast
  have 2: "snd (api_user_avatar demo_libs demo_runtime (?req ?big) demo_db) = demo_db"
    using avatar_rejects [of "?req ?big" demo_libs demo_runtime demo_db] g by blast
  have 3: "fst (api_user_avatar demo_libs demo_runtime (?req ?text) demo_db) =
      Error_handler OnlyImages"
    by (simp add: api demo)
  have 4: "api_user_avatar demo_libs demo_runtime (?req ?png) demo_db =
     (Json_picture ''/uploads/avatar-1000-7.png'',
      demo_db\<lparr>users := [alice\<lparr>profilePicture := ''/uploads/avatar-1000-7.png''\<rparr>, bob]\<rparr>)"
    by (simp add: api demo)
  show ?thesis
    using 1 2 3 4 by simp
qed

end
